theory Spec2Isabelle
  imports Main "HOL-Library.Word"
begin

section \<open>The connection server of via-httplib (src/via/comms/server.hpp)\<close>

text \<open>
  The class template \<open>via::comms::server\<close> is embedded as a record of its data members and
  one function per member function. Everything a member function touches outside the
  object (the connection objects on the free store, the asynchronous operations handed to
  the io_service, the calls of the user's callbacks) lives in a second record, the
  \<open>world\<close>, which every member function with such an effect takes and returns. A member
  function that can leave by an exception returns an \<open>outcome\<close>; the state it returns
  next to \<open>Throws\<close> is the state at the point of the throw, as in C++.

  The user's callbacks are opaque: a call of one is recorded, returns, and does not call
  back into the server. Allocating a connection does not fail.
\<close>

subsection \<open>Error codes, exceptions, results\<close>

text \<open>
  \<open>boost::system::error_code\<close>: the value tested by \<open>if (ec)\<close> is \<open>ec \<noteq> no_error\<close>.
\<close>

datatype error_code =
  no_error | operation_aborted | already_open | bad_descriptor | address_in_use
  | other_error nat

text \<open>
  The exceptions that the code of server.hpp can raise: \<open>boost::system::system_error\<close> from
  the acceptor member functions called without an error-code argument,
  \<open>boost::bad_function_call\<close> from calling an empty \<open>boost::function\<close>, and the failed
  assertion of \<open>shared_ptr::operator->\<close> on a null pointer.
\<close>

datatype exn = system_error error_code | bad_function_call | null_pointer_access

datatype 'a outcome = Returns 'a | Throws exn

subsection \<open>Connections, callbacks and the world outside the server\<close>

text \<open>
  Modelled from the spec: the event enumeration is declared with the connection classes,
  which are not among the sources. The spec (section 3) lists the events as CONNECTED,
  DISCONNECTED, SENT, RECEIVED and transport-specific variants; the handler receives the
  event as an \<open>int\<close>, so any other value is \<open>OTHER_EVENT\<close>.
\<close>

datatype event_type = CONNECTED | RECEIVED | SENT | DISCONNECTED | OTHER_EVENT int

type_synonym conn_id = nat

text \<open>
  Modelled from the spec: \<open>connection.hpp\<close> is not among the sources. Of a connection
  (the spec's Transport, section 6) the server sets two things: the receive buffer size
  given to \<open>create\<close>, and the three arguments given to \<open>start\<close>. A connection that has been
  created and not started is pending. The buffer size is an \<open>option\<close> because the server
  can hand over a \<open>size_t\<close> that was never initialised (\<open>None\<close>).
\<close>

record connection =
  conn_rx_buffer_size :: "64 word option"
  started :: "(bool \<times> bool \<times> 32 word) option"

text \<open>A callback is identified by a number; calling one is recorded in the log.\<close>

type_synonym callback = nat

datatype family = V6 | V4

datatype effect =
  async_accept family conn_id
  | event_callback_call callback event_type "conn_id option"
  | error_callback_call callback error_code "conn_id option"

text \<open>
  The free store maps the identity of every live connection object to its value. A
  \<open>shared_ptr\<close> is a \<open>conn_id option\<close> (\<open>None\<close> the null pointer) and so is a \<open>weak_ptr\<close>;
  \<open>lock\<close> resolves a weak pointer exactly when its object is still on the free store.
  \<open>next_id\<close> is the identity the next allocation returns.
\<close>

record world =
  heap :: "conn_id \<rightharpoonup> connection"
  next_id :: conn_id
  log :: "effect list"

definition lock :: "world \<Rightarrow> conn_id option \<Rightarrow> conn_id option" where
  "lock w ptr =
     (case ptr of
        None \<Rightarrow> None
      | Some c \<Rightarrow> (case heap w c of None \<Rightarrow> None | Some obj \<Rightarrow> Some c))"

text \<open>
  Modelled from the spec: \<open>connection_type::create\<close> (spec section 6, the factory) returns a
  new connection in the pending state with the given receive buffer size.
\<close>

definition connection_create :: "64 word option \<Rightarrow> world \<Rightarrow> conn_id \<times> world" where
  "connection_create rx w =
     (next_id w,
      w\<lparr>heap := (heap w)(next_id w \<mapsto> \<lparr>conn_rx_buffer_size = rx, started = None\<rparr>),
        next_id := Suc (next_id w)\<rparr>)"

text \<open>
  Modelled from the spec: \<open>connection::start(no_delay, keep_alive, timeout)\<close> (spec section 6)
  takes the connection from pending to active with these settings.
\<close>

definition connection_start :: "conn_id \<Rightarrow> bool \<Rightarrow> bool \<Rightarrow> 32 word \<Rightarrow> world \<Rightarrow> world" where
  "connection_start c nd ka t w =
     (case heap w c of
        None \<Rightarrow> w
      | Some obj \<Rightarrow>
          w\<lparr>heap := (heap w)(c \<mapsto> obj\<lparr>started := Some (nd, ka, t)\<rparr>)\<rparr>)"

definition emit :: "effect \<Rightarrow> world \<Rightarrow> world" where
  "emit e w = w\<lparr>log := log w @ [e]\<rparr>"

subsection \<open>The acceptors\<close>

text \<open>
  \<open>boost::asio::ip::tcp::acceptor\<close> belongs to Boost.Asio, not to this repository. An
  acceptor is closed (\<open>None\<close>) or holds an open socket with its options. What the
  operating system answers to each request is a parameter, \<open>os_env\<close>: the result of
  opening a socket of a family, the value of the v6-only option on a new IPv6 socket, and
  the results of setting and reading that option, of setting address reuse, of binding to
  a port and of listening. Closing is taken to succeed always.
\<close>

record socket =
  v6_only :: bool
  reuse_address :: bool
  bound :: "16 word option"
  listening :: bool

type_synonym acceptor = "socket option"

record os_env =
  open_result :: "family \<Rightarrow> error_code"
  v6only_default :: bool
  set_v6only_result :: error_code
  get_v6only_result :: error_code
  reuse_result :: "family \<Rightarrow> error_code"
  bind_result :: "family \<Rightarrow> 16 word \<Rightarrow> error_code"
  listen_result :: "family \<Rightarrow> error_code"

definition is_open :: "acceptor \<Rightarrow> bool" where
  "is_open a = (case a of None \<Rightarrow> False | Some sk \<Rightarrow> True)"

text \<open>Whether an acceptor is open with the v6-only option on.\<close>

definition is_v6_only :: "acceptor \<Rightarrow> bool" where
  "is_v6_only a = (case a of None \<Rightarrow> False | Some sk \<Rightarrow> v6_only sk)"

text \<open>\<open>acceptor.open(protocol, ec)\<close>: an open acceptor answers \<open>already_open\<close>.\<close>

definition acceptor_open :: "os_env \<Rightarrow> family \<Rightarrow> acceptor \<Rightarrow> error_code \<times> acceptor" where
  "acceptor_open os fam a =
     (if is_open a then (already_open, a)
      else if open_result os fam = no_error then
        (no_error,
         Some \<lparr>v6_only = (fam = V6 \<and> v6only_default os), reuse_address = False,
               bound = None, listening = False\<rparr>)
      else (open_result os fam, a))"

text \<open>\<open>acceptor.set_option(v6_only(v), ec)\<close>: the failure is stored in \<open>ec\<close>.\<close>

definition set_option_v6_only :: "os_env \<Rightarrow> bool \<Rightarrow> acceptor \<Rightarrow> error_code \<times> acceptor" where
  "set_option_v6_only os v a =
     (case a of
        None \<Rightarrow> (bad_descriptor, a)
      | Some sk \<Rightarrow>
          if set_v6only_result os = no_error then (no_error, Some (sk\<lparr>v6_only := v\<rparr>))
          else (set_v6only_result os, a))"

text \<open>\<open>acceptor.get_option(v6_only)\<close> without an error code: a failure is thrown.\<close>

definition get_option_v6_only :: "os_env \<Rightarrow> acceptor \<Rightarrow> bool outcome" where
  "get_option_v6_only os a =
     (case a of
        None \<Rightarrow> Throws (system_error bad_descriptor)
      | Some sk \<Rightarrow>
          if get_v6only_result os = no_error then Returns (v6_only sk)
          else Throws (system_error (get_v6only_result os)))"

text \<open>\<open>acceptor.set_option(reuse_address(v))\<close> without an error code.\<close>

definition set_option_reuse_address ::
  "os_env \<Rightarrow> family \<Rightarrow> bool \<Rightarrow> acceptor \<Rightarrow> unit outcome \<times> acceptor" where
  "set_option_reuse_address os fam v a =
     (case a of
        None \<Rightarrow> (Throws (system_error bad_descriptor), a)
      | Some sk \<Rightarrow>
          if reuse_result os fam = no_error then (Returns (), Some (sk\<lparr>reuse_address := v\<rparr>))
          else (Throws (system_error (reuse_result os fam)), a))"

text \<open>\<open>acceptor.bind(endpoint(family, port))\<close> without an error code.\<close>

definition acceptor_bind ::
  "os_env \<Rightarrow> family \<Rightarrow> 16 word \<Rightarrow> acceptor \<Rightarrow> unit outcome \<times> acceptor" where
  "acceptor_bind os fam port a =
     (case a of
        None \<Rightarrow> (Throws (system_error bad_descriptor), a)
      | Some sk \<Rightarrow>
          if bind_result os fam port = no_error then (Returns (), Some (sk\<lparr>bound := Some port\<rparr>))
          else (Throws (system_error (bind_result os fam port)), a))"

text \<open>\<open>acceptor.listen()\<close> without an error code.\<close>

definition acceptor_listen :: "os_env \<Rightarrow> family \<Rightarrow> acceptor \<Rightarrow> unit outcome \<times> acceptor" where
  "acceptor_listen os fam a =
     (case a of
        None \<Rightarrow> (Throws (system_error bad_descriptor), a)
      | Some sk \<Rightarrow>
          if listen_result os fam = no_error then (Returns (), Some (sk\<lparr>listening := True\<rparr>))
          else (Throws (system_error (listen_result os fam)), a))"

text \<open>\<open>acceptor.close()\<close>: closing a closed acceptor is allowed and changes nothing.\<close>

definition acceptor_close :: "acceptor \<Rightarrow> acceptor" where
  "acceptor_close a = None"

subsection \<open>The server object\<close>

type_synonym io_service_ref = nat

text \<open>
  The template parameter \<open>SocketAdaptor\<close> enters the server through one constant.
\<close>

record socket_adaptor =
  DEFAULT_RX_BUFFER_SIZE :: "64 word"

text \<open>
  The data members, in the order of their declaration; each keeps its name without the
  final underscore, which the name of a constant cannot end in. \<open>connections\<close> is a
  \<open>std::set\<close> of shared pointers. An empty \<open>boost::function\<close> is \<open>None\<close>.
  \<open>rx_buffer_size\<close> is \<open>None\<close> while it holds no initialised value.
\<close>

record server =
  io_service :: io_service_ref
  acceptor_v6 :: acceptor
  acceptor_v4 :: acceptor
  next_connection :: "conn_id option"
  connections :: "conn_id set"
  password :: string
  event_callback :: "callback option"
  error_callback :: "callback option"
  rx_buffer_size :: "64 word option"
  timeout :: "32 word"
  no_delay :: bool
  keep_alive :: bool

subsection \<open>Construction\<close>

text \<open>\<open>server(io_service)\<close>, lines 185 to 198.\<close>

definition server_ctor :: "socket_adaptor \<Rightarrow> io_service_ref \<Rightarrow> server" where
  "server_ctor sa io =
     \<lparr>io_service = io,
      acceptor_v6 = None,
      acceptor_v4 = None,
      next_connection = None,
      connections = {},
      password = [],
      event_callback = None,
      error_callback = None,
      rx_buffer_size = Some (DEFAULT_RX_BUFFER_SIZE sa),
      timeout = 0,
      no_delay = False,
      keep_alive = False\<rparr>"

text \<open>
  \<open>server(io_service, event_callback, error_callback)\<close>, lines 208 to 222. Its
  initialiser list has no entry for \<open>rx_buffer_size\<close>, and the constructor body is empty.
\<close>

definition server_ctor_callbacks :: "io_service_ref \<Rightarrow> callback \<Rightarrow> callback \<Rightarrow> server" where
  "server_ctor_callbacks io event_cb error_cb =
     \<lparr>io_service = io,
      acceptor_v6 = None,
      acceptor_v4 = None,
      next_connection = None,
      connections = {},
      password = [],
      event_callback = Some event_cb,
      error_callback = Some error_cb,
      rx_buffer_size = None,
      timeout = 0,
      no_delay = False,
      keep_alive = False\<rparr>"

subsection \<open>The private member functions\<close>

text \<open>
  \<open>start_accept\<close>, lines 158 to 174: create the next connection with the current receive
  buffer size and ask every open acceptor to accept into its socket.
\<close>

definition start_accept :: "server \<Rightarrow> world \<Rightarrow> server \<times> world" where
  "start_accept s w =
     (let (c, w1) = connection_create (rx_buffer_size s) w;
          s1 = s\<lparr>next_connection := Some c\<rparr>;
          w2 = (if is_open (acceptor_v6 s1) then emit (async_accept V6 c) w1 else w1);
          w3 = (if is_open (acceptor_v4 s1) then emit (async_accept V4 c) w2 else w2)
      in (s1, w3))"

text \<open>\<open>accept_handler\<close>, lines 108 to 124.\<close>

definition accept_handler :: "error_code \<Rightarrow> server \<Rightarrow> world \<Rightarrow> unit outcome \<times> server \<times> world" where
  "accept_handler error s w =
     (if (is_open (acceptor_v6 s) \<or> is_open (acceptor_v4 s)) \<and> operation_aborted \<noteq> error
      then
        (if error \<noteq> no_error then
           (case error_callback s of
              None \<Rightarrow> (Throws bad_function_call, s, w)
            | Some cb \<Rightarrow>
                (let w1 = emit (error_callback_call cb error (next_connection s)) w;
                     (s2, w2) = start_accept s w1
                 in (Returns (), s2, w2)))
         else
           (case next_connection s of
              None \<Rightarrow> (Throws null_pointer_access, s, w)
            | Some c \<Rightarrow>
                (let w1 = connection_start c (no_delay s) (keep_alive s) (timeout s) w;
                     s1 = s\<lparr>connections := insert c (connections s)\<rparr>;
                     s2 = s1\<lparr>next_connection := None\<rparr>;
                     (s3, w3) = start_accept s2 w1
                 in (Returns (), s3, w3))))
      else (Returns (), s, w))"

text \<open>
  \<open>event_handler\<close>, lines 132 to 145. \<open>find\<close> followed by \<open>erase\<close> of the iterator
  removes the element when it is in the set.
\<close>

definition event_handler ::
  "event_type \<Rightarrow> conn_id option \<Rightarrow> server \<Rightarrow> world \<Rightarrow> unit outcome \<times> server \<times> world" where
  "event_handler event ptr s w =
     (case event_callback s of
        None \<Rightarrow> (Throws bad_function_call, s, w)
      | Some cb \<Rightarrow>
          (let w1 = emit (event_callback_call cb event ptr) w in
           if event = DISCONNECTED then
             (case lock w1 ptr of
                None \<Rightarrow> (Returns (), s, w1)
              | Some connection \<Rightarrow>
                  if connection \<in> connections s
                  then (Returns (), s\<lparr>connections := connections s - {connection}\<rparr>, w1)
                  else (Returns (), s, w1))
           else (Returns (), s, w1)))"

text \<open>\<open>error_handler\<close>, lines 152 to 154.\<close>

definition error_handler ::
  "error_code \<Rightarrow> conn_id option \<Rightarrow> server \<Rightarrow> world \<Rightarrow> unit outcome \<times> server \<times> world" where
  "error_handler error connection s w =
     (case error_callback s of
        None \<Rightarrow> (Throws bad_function_call, s, w)
      | Some cb \<Rightarrow> (Returns (), s, emit (error_callback_call cb error connection) w))"

subsection \<open>The public member functions\<close>

text \<open>
  The three calls made without an error code on a newly opened acceptor, in the order of
  lines 269 to 273 and again of lines 284 to 288: address reuse, bind, listen. The first
  that fails throws and the later ones are not made.
\<close>

definition reuse_bind_listen ::
  "os_env \<Rightarrow> family \<Rightarrow> 16 word \<Rightarrow> acceptor \<Rightarrow> unit outcome \<times> acceptor" where
  "reuse_bind_listen os fam port a =
     (case set_option_reuse_address os fam True a of
        (Throws x, a1) \<Rightarrow> (Throws x, a1)
      | (Returns u, a1) \<Rightarrow>
          (case acceptor_bind os fam port a1 of
             (Throws x, a2) \<Rightarrow> (Throws x, a2)
           | (Returns u, a2) \<Rightarrow> acceptor_listen os fam a2))"

text \<open>
  Lines 258 to 275 of \<open>accept_connections\<close>: the IPv6 acceptor. The result is the pair of
  the local variables \<open>ipv6_only\<close> and \<open>ec\<close> at line 276.
\<close>

definition open_v6 ::
  "os_env \<Rightarrow> 16 word \<Rightarrow> bool \<Rightarrow> server \<Rightarrow> (bool \<times> error_code) outcome \<times> server" where
  "open_v6 os port ipv4_only s =
     (if \<not> ipv4_only then
        (let (ec, a1) = acceptor_open os V6 (acceptor_v6 s) in
         if ec = no_error then
           (let (ec2, a2) = set_option_v6_only os False a1 in
            case get_option_v6_only os a2 of
              Throws x \<Rightarrow> (Throws x, s\<lparr>acceptor_v6 := a2\<rparr>)
            | Returns ipv6_only \<Rightarrow>
                (case reuse_bind_listen os V6 port a2 of
                   (Throws x, a3) \<Rightarrow> (Throws x, s\<lparr>acceptor_v6 := a3\<rparr>)
                 | (Returns u, a3) \<Rightarrow> (Returns (ipv6_only, ec2), s\<lparr>acceptor_v6 := a3\<rparr>)))
         else (Returns (False, ec), s\<lparr>acceptor_v6 := a1\<rparr>))
      else (Returns (False, no_error), s))"

text \<open>
  Lines 277 to 290: the IPv4 acceptor, given the values of \<open>ipv6_only\<close> and \<open>ec\<close> that
  the first part left. The result is \<open>ec\<close> at line 291.
\<close>

definition open_v4 ::
  "os_env \<Rightarrow> 16 word \<Rightarrow> bool \<Rightarrow> error_code \<Rightarrow> server \<Rightarrow> error_code outcome \<times> server" where
  "open_v4 os port ipv6_only ec s =
     (if \<not> is_open (acceptor_v6 s) \<or> ipv6_only then
        (let (ec1, a1) = acceptor_open os V4 (acceptor_v4 s) in
         if ec1 = no_error then
           (case reuse_bind_listen os V4 port a1 of
              (Throws x, a2) \<Rightarrow> (Throws x, s\<lparr>acceptor_v4 := a2\<rparr>)
            | (Returns u, a2) \<Rightarrow> (Returns ec1, s\<lparr>acceptor_v4 := a2\<rparr>))
         else (Returns ec1, s\<lparr>acceptor_v4 := a1\<rparr>))
      else (Returns ec, s))"

text \<open>\<open>accept_connections\<close>, lines 255 to 294.\<close>

definition accept_connections ::
  "os_env \<Rightarrow> 16 word \<Rightarrow> bool \<Rightarrow> server \<Rightarrow> world \<Rightarrow> error_code outcome \<times> server \<times> world" where
  "accept_connections os port ipv4_only s w =
     (case open_v6 os port ipv4_only s of
        (Throws x, s1) \<Rightarrow> (Throws x, s1, w)
      | (Returns (ipv6_only, ec), s1) \<Rightarrow>
          (case open_v4 os port ipv6_only ec s1 of
             (Throws x, s2) \<Rightarrow> (Throws x, s2, w)
           | (Returns ec2, s2) \<Rightarrow>
               (let (s3, w3) = start_accept s2 w in (Returns ec2, s3, w3))))"

text \<open>\<open>password\<close> and \<open>set_password\<close>, lines 300 to 312 (the registration of the getter
  with the SSL context is outside the server object).\<close>

definition get_password :: "server \<Rightarrow> string" where
  "get_password s = password s"

definition set_password :: "string \<Rightarrow> server \<Rightarrow> server" where
  "set_password pw s = s\<lparr>password := pw\<rparr>"

text \<open>The setters, lines 321 to 358.\<close>

definition set_event_callback :: "callback \<Rightarrow> server \<Rightarrow> server" where
  "set_event_callback event_cb s = s\<lparr>event_callback := Some event_cb\<rparr>"

definition set_error_callback :: "callback \<Rightarrow> server \<Rightarrow> server" where
  "set_error_callback error_cb s = s\<lparr>error_callback := Some error_cb\<rparr>"

definition set_rx_buffer_size :: "64 word \<Rightarrow> server \<Rightarrow> server" where
  "set_rx_buffer_size sz s = s\<lparr>rx_buffer_size := Some sz\<rparr>"

definition set_no_delay :: "bool \<Rightarrow> server \<Rightarrow> server" where
  "set_no_delay enable s = s\<lparr>no_delay := enable\<rparr>"

definition set_keep_alive :: "bool \<Rightarrow> server \<Rightarrow> server" where
  "set_keep_alive enable s = s\<lparr>keep_alive := enable\<rparr>"

definition set_timeout :: "32 word \<Rightarrow> server \<Rightarrow> server" where
  "set_timeout t s = s\<lparr>timeout := t\<rparr>"

text \<open>\<open>close\<close>, lines 362 to 368, and the destructor, lines 225 to 226.\<close>

definition close :: "server \<Rightarrow> server" where
  "close s =
     (let s1 = s\<lparr>acceptor_v6 := acceptor_close (acceptor_v6 s)\<rparr>;
          s2 = s1\<lparr>acceptor_v4 := acceptor_close (acceptor_v4 s1)\<rparr>;
          s3 = s2\<lparr>next_connection := None\<rparr>
      in s3\<lparr>connections := {}\<rparr>)"

definition destructor :: "server \<Rightarrow> server" where
  "destructor s = close s"

text \<open>The three components of what a member function returns.\<close>

definition result_of :: "'a \<times> server \<times> world \<Rightarrow> 'a" where
  "result_of r = fst r"

definition server_of :: "'a \<times> server \<times> world \<Rightarrow> server" where
  "server_of r = fst (snd r)"

definition world_of :: "'a \<times> server \<times> world \<Rightarrow> world" where
  "world_of r = snd (snd r)"

subsection \<open>Example states\<close>

text \<open>
  A world in which nothing has happened yet, and the state of a dual-stack server on port
  8080 after two connections (0 and 1) were accepted, with connection 2 pending.
\<close>

definition example_adaptor :: socket_adaptor where
  "example_adaptor = \<lparr>DEFAULT_RX_BUFFER_SIZE = 8192\<rparr>"

definition empty_world :: world where
  "empty_world = \<lparr>heap = Map.empty, next_id = 0, log = []\<rparr>"

definition example_listening_server :: server where
  "example_listening_server =
     \<lparr>io_service = 0,
      acceptor_v6 =
        Some \<lparr>v6_only = False, reuse_address = True, bound = Some 8080, listening = True\<rparr>,
      acceptor_v4 = None,
      next_connection = Some 2,
      connections = {0, 1},
      password = [],
      event_callback = Some 1,
      error_callback = Some 2,
      rx_buffer_size = Some 8192,
      timeout = 0,
      no_delay = False,
      keep_alive = False\<rparr>"

definition example_world :: world where
  "example_world =
     \<lparr>heap = [0 \<mapsto> \<lparr>conn_rx_buffer_size = Some 8192, started = Some (False, False, 0)\<rparr>,
              1 \<mapsto> \<lparr>conn_rx_buffer_size = Some 8192, started = Some (False, False, 0)\<rparr>,
              2 \<mapsto> \<lparr>conn_rx_buffer_size = Some 8192, started = None\<rparr>],
      next_id = 3,
      log = [async_accept V6 0, async_accept V6 1, async_accept V6 2]\<rparr>"

text \<open>
  Operating systems: one on which every request succeeds and IPv6 sockets are dual-stack,
  one on which the port is taken, and four on which IPv6 sockets accept IPv6 only and
  the option cannot be switched off: with the port free, with the port taken for IPv4,
  with the port taken for IPv6, and with no IPv4 socket to be had.
\<close>

definition os_dual_stack :: os_env where
  "os_dual_stack =
     \<lparr>open_result = (\<lambda>fam. no_error), v6only_default = False,
      set_v6only_result = no_error, get_v6only_result = no_error,
      reuse_result = (\<lambda>fam. no_error), bind_result = (\<lambda>fam port. no_error),
      listen_result = (\<lambda>fam. no_error)\<rparr>"

definition os_port_in_use :: os_env where
  "os_port_in_use = os_dual_stack\<lparr>bind_result := (\<lambda>fam port. address_in_use)\<rparr>"

definition os_v6_only :: os_env where
  "os_v6_only = os_dual_stack\<lparr>v6only_default := True, set_v6only_result := other_error 92\<rparr>"

definition os_v6_only_v4_port_in_use :: os_env where
  "os_v6_only_v4_port_in_use =
     os_v6_only\<lparr>bind_result := (\<lambda>fam port. if fam = V4 then address_in_use else no_error)\<rparr>"

definition os_v6_only_v6_port_in_use :: os_env where
  "os_v6_only_v6_port_in_use =
     os_v6_only\<lparr>bind_result := (\<lambda>fam port. if fam = V6 then address_in_use else no_error)\<rparr>"

definition os_v6_only_no_v4 :: os_env where
  "os_v6_only_no_v4 =
     os_v6_only\<lparr>open_result := (\<lambda>fam. if fam = V4 then other_error 97 else no_error)\<rparr>"

subsection \<open>The states a server can be in\<close>

text \<open>
  A server starts from one of its constructors, in any world. Each public member function
  and each handler called by a connection or by the io_service takes it to the state and
  world that the function returns, whether it returns normally or throws. The handlers
  may be called at any time and with any argument.
\<close>

inductive reachable :: "server \<Rightarrow> world \<Rightarrow> bool" where
  constructed: "reachable (server_ctor sa io) w"
| constructed_callbacks: "reachable (server_ctor_callbacks io event_cb error_cb) w"
| opened: "reachable s w \<Longrightarrow> accept_connections os port ipv4_only s w = (r, s', w')
    \<Longrightarrow> reachable s' w'"
| accept_completed: "reachable s w \<Longrightarrow> accept_handler error s w = (u, s', w')
    \<Longrightarrow> reachable s' w'"
| event_delivered: "reachable s w \<Longrightarrow> event_handler event ptr s w = (u, s', w')
    \<Longrightarrow> reachable s' w'"
| error_delivered: "reachable s w \<Longrightarrow> error_handler error ptr s w = (u, s', w')
    \<Longrightarrow> reachable s' w'"
| closed: "reachable s w \<Longrightarrow> reachable (close s) w"
| password_set: "reachable s w \<Longrightarrow> reachable (set_password pw s) w"
| event_callback_set: "reachable s w \<Longrightarrow> reachable (set_event_callback event_cb s) w"
| error_callback_set: "reachable s w \<Longrightarrow> reachable (set_error_callback error_cb s) w"
| rx_buffer_size_set: "reachable s w \<Longrightarrow> reachable (set_rx_buffer_size sz s) w"
| no_delay_set: "reachable s w \<Longrightarrow> reachable (set_no_delay enable s) w"
| keep_alive_set: "reachable s w \<Longrightarrow> reachable (set_keep_alive enable s) w"
| timeout_set: "reachable s w \<Longrightarrow> reachable (set_timeout t s) w"

text \<open>
  Every connection the server holds was allocated before the next allocation, and the
  pending connection is not registered.
\<close>

definition registry_fresh :: "server \<Rightarrow> world \<Rightarrow> bool" where
  "registry_fresh s w =
     ((\<forall>c \<in> connections s. c < next_id w)
      \<and> (\<forall>c. next_connection s = Some c \<longrightarrow> c < next_id w \<and> c \<notin> connections s))"

section \<open>Properties\<close>

subsection \<open>What start_accept does\<close>

lemma start_accept_server:
  "fst (start_accept s w) = s\<lparr>next_connection := Some (next_id w)\<rparr>"
  by (simp add: start_accept_def connection_create_def Let_def)

lemma start_accept_next_id:
  "next_id (snd (start_accept s w)) = Suc (next_id w)"
  by (simp add: start_accept_def connection_create_def emit_def Let_def)

lemma start_accept_heap:
  "heap (snd (start_accept s w))
     = (heap w)(next_id w \<mapsto> \<lparr>conn_rx_buffer_size = rx_buffer_size s, started = None\<rparr>)"
  by (simp add: start_accept_def connection_create_def emit_def Let_def)

lemma start_accept_log:
  "log (snd (start_accept s w))
     = log w
       @ (if is_open (acceptor_v6 s) then [async_accept V6 (next_id w)] else [])
       @ (if is_open (acceptor_v4 s) then [async_accept V4 (next_id w)] else [])"
  by (simp add: start_accept_def connection_create_def emit_def Let_def)

subsection \<open>Accept completion\<close>

text \<open>
  Claim C1. When at least one listener is open and the completion is neither a
  cancellation nor an error, \<open>accept_handler\<close> starts the pending connection with the
  configured no-delay, keep-alive and timeout, inserts it into the registry, clears the
  pending slot and then calls \<open>start_accept\<close>. When the completion carries an error other
  than the cancellation, it gives the error and the pending connection to the error
  callback and still calls \<open>start_accept\<close>. The pending slot must hold a live connection
  in the first case and the error callback must be set in the second. What is left
  behind: the connection is registered and started, a new connection is pending, and the
  log ends with one accept request for every open listener.
\<close>

theorem accept_handler_promotes:
  assumes "is_open (acceptor_v6 s) \<or> is_open (acceptor_v4 s)"
    and "error \<noteq> operation_aborted"
  shows "(error = no_error \<and> next_connection s = Some c \<and> heap w c = Some obj \<longrightarrow>
            accept_handler error s w
              = (Returns (),
                 start_accept
                   (s\<lparr>connections := insert c (connections s), next_connection := None\<rparr>)
                   (w\<lparr>heap := (heap w)(c \<mapsto>
                        obj\<lparr>started := Some (no_delay s, keep_alive s, timeout s)\<rparr>)\<rparr>)))
       \<and> (error = no_error \<and> next_connection s = Some c \<and> heap w c = Some obj
            \<and> c \<noteq> next_id w \<longrightarrow>
            server_of (accept_handler error s w)
              = s\<lparr>connections := insert c (connections s),
                   next_connection := Some (next_id w)\<rparr>
            \<and> heap (world_of (accept_handler error s w)) c
              = Some (obj\<lparr>started := Some (no_delay s, keep_alive s, timeout s)\<rparr>)
            \<and> log (world_of (accept_handler error s w))
              = log w
                @ (if is_open (acceptor_v6 s) then [async_accept V6 (next_id w)] else [])
                @ (if is_open (acceptor_v4 s) then [async_accept V4 (next_id w)] else []))
       \<and> (error \<noteq> no_error \<and> error_callback s = Some cb \<longrightarrow>
            accept_handler error s w
              = (Returns (),
                 start_accept s
                   (w\<lparr>log := log w @ [error_callback_call cb error (next_connection s)]\<rparr>))
            \<and> server_of (accept_handler error s w) = s\<lparr>next_connection := Some (next_id w)\<rparr>
            \<and> log (world_of (accept_handler error s w))
              = log w @ [error_callback_call cb error (next_connection s)]
                @ (if is_open (acceptor_v6 s) then [async_accept V6 (next_id w)] else [])
                @ (if is_open (acceptor_v4 s) then [async_accept V4 (next_id w)] else []))"
proof -
  have guard: "(is_open (acceptor_v6 s) \<or> is_open (acceptor_v4 s)) \<and> operation_aborted \<noteq> error"
    using assms by auto
  have ok: "accept_handler error s w
              = (Returns (),
                 start_accept
                   (s\<lparr>connections := insert c (connections s), next_connection := None\<rparr>)
                   (w\<lparr>heap := (heap w)(c \<mapsto>
                        obj\<lparr>started := Some (no_delay s, keep_alive s, timeout s)\<rparr>)\<rparr>))"
    if "error = no_error" and "next_connection s = Some c" and "heap w c = Some obj"
    using that guard
    by (simp add: accept_handler_def connection_start_def Let_def split: prod.splits)
  have failed: "accept_handler error s w
              = (Returns (),
                 start_accept s
                   (w\<lparr>log := log w @ [error_callback_call cb error (next_connection s)]\<rparr>))"
    if "error \<noteq> no_error" and "error_callback s = Some cb"
    using that guard
    by (simp add: accept_handler_def emit_def Let_def split: prod.splits)
  have ok_after: "server_of (accept_handler error s w)
              = s\<lparr>connections := insert c (connections s),
                   next_connection := Some (next_id w)\<rparr>
            \<and> heap (world_of (accept_handler error s w)) c
              = Some (obj\<lparr>started := Some (no_delay s, keep_alive s, timeout s)\<rparr>)
            \<and> log (world_of (accept_handler error s w))
              = log w
                @ (if is_open (acceptor_v6 s) then [async_accept V6 (next_id w)] else [])
                @ (if is_open (acceptor_v4 s) then [async_accept V4 (next_id w)] else [])"
    if "error = no_error" and "next_connection s = Some c" and "heap w c = Some obj"
      and "c \<noteq> next_id w"
    unfolding ok [OF that(1,2,3)] using that(4)
    by (simp add: server_of_def world_of_def start_accept_server start_accept_heap
        start_accept_log)
  have failed_after: "server_of (accept_handler error s w) = s\<lparr>next_connection := Some (next_id w)\<rparr>
            \<and> log (world_of (accept_handler error s w))
              = log w @ [error_callback_call cb error (next_connection s)]
                @ (if is_open (acceptor_v6 s) then [async_accept V6 (next_id w)] else [])
                @ (if is_open (acceptor_v4 s) then [async_accept V4 (next_id w)] else [])"
    if "error \<noteq> no_error" and "error_callback s = Some cb"
    unfolding failed [OF that]
    by (simp add: server_of_def world_of_def start_accept_server start_accept_log)
  show ?thesis
    using ok ok_after failed failed_after by blast
qed

theorem accept_handler_promotes_witness:
  "(is_open (acceptor_v6 example_listening_server)
      \<or> is_open (acceptor_v4 example_listening_server))
   \<and> next_connection example_listening_server = Some 2
   \<and> error_callback example_listening_server = Some 2
   \<and> accept_handler no_error example_listening_server example_world
     = (Returns (),
        example_listening_server\<lparr>connections := {0, 1, 2}, next_connection := Some 3\<rparr>,
        \<lparr>heap = [0 \<mapsto> \<lparr>conn_rx_buffer_size = Some 8192, started = Some (False, False, 0)\<rparr>,
                 1 \<mapsto> \<lparr>conn_rx_buffer_size = Some 8192, started = Some (False, False, 0)\<rparr>,
                 2 \<mapsto> \<lparr>conn_rx_buffer_size = Some 8192, started = Some (False, False, 0)\<rparr>,
                 3 \<mapsto> \<lparr>conn_rx_buffer_size = Some 8192, started = None\<rparr>],
         next_id = 4,
         log = [async_accept V6 0, async_accept V6 1, async_accept V6 2, async_accept V6 3]\<rparr>)
   \<and> accept_handler address_in_use example_listening_server example_world
     = (Returns (),
        example_listening_server\<lparr>next_connection := Some 3\<rparr>,
        \<lparr>heap = [0 \<mapsto> \<lparr>conn_rx_buffer_size = Some 8192, started = Some (False, False, 0)\<rparr>,
                 1 \<mapsto> \<lparr>conn_rx_buffer_size = Some 8192, started = Some (False, False, 0)\<rparr>,
                 2 \<mapsto> \<lparr>conn_rx_buffer_size = Some 8192, started = None\<rparr>,
                 3 \<mapsto> \<lparr>conn_rx_buffer_size = Some 8192, started = None\<rparr>],
         next_id = 4,
         log = [async_accept V6 0, async_accept V6 1, async_accept V6 2,
                error_callback_call 2 address_in_use (Some 2), async_accept V6 3]\<rparr>)"
  using accept_handler_promotes [of example_listening_server no_error 2 example_world
      "\<lparr>conn_rx_buffer_size = Some 8192, started = None\<rparr>" 2]
    accept_handler_promotes [of example_listening_server address_in_use 2 example_world
      "\<lparr>conn_rx_buffer_size = Some 8192, started = None\<rparr>" 2]
  by (simp add: example_listening_server_def example_world_def is_open_def start_accept_def
      connection_create_def emit_def insert_commute)

text \<open>
  Claim C8. An accept completion that is a cancellation (the error is
  \<open>operation_aborted\<close>) or that finds no listener open does nothing: the server and the
  world are as before, so \<open>start_accept\<close> was not called and the error callback was not
  called. After \<open>close\<close> this holds for every completion, whatever its error.
\<close>

theorem accept_handler_cancelled:
  "(error = operation_aborted \<or> (\<not> is_open (acceptor_v6 s) \<and> \<not> is_open (acceptor_v4 s))
      \<longrightarrow> accept_handler error s w = (Returns (), s, w))
   \<and> accept_handler error (close s) w = (Returns (), close s, w)"
  by (auto simp add: accept_handler_def close_def acceptor_close_def is_open_def)

theorem accept_handler_cancelled_witness:
  "accept_handler operation_aborted example_listening_server example_world
     = (Returns (), example_listening_server, example_world)
   \<and> accept_handler no_error (close example_listening_server) example_world
     = (Returns (), close example_listening_server, example_world)"
  using accept_handler_cancelled [of operation_aborted example_listening_server example_world]
    accept_handler_cancelled [of no_error example_listening_server example_world]
  by simp

subsection \<open>The event and error routers\<close>

text \<open>
  Claim C4. Every event is given to the event callback (which must be set). The registry
  loses the connection that the weak pointer resolves to exactly when the event is
  DISCONNECTED and the pointer resolves; nothing else of the server changes. When that
  connection is not in the registry, the server is unchanged, and a second DISCONNECTED
  for the same connection returns normally and leaves the registry as the first left it.
\<close>

theorem event_handler_routes:
  assumes "event_callback s = Some cb"
  shows "event_handler event ptr s w
           = (Returns (),
              s\<lparr>connections :=
                   connections s
                     - (if event = DISCONNECTED then set_option (lock w ptr) else {})\<rparr>,
              emit (event_callback_call cb event ptr) w)
       \<and> (lock w ptr = Some c \<and> c \<notin> connections s \<longrightarrow>
            event_handler DISCONNECTED ptr s w
              = (Returns (), s, emit (event_callback_call cb DISCONNECTED ptr) w))
       \<and> (event_handler DISCONNECTED ptr s w = (r, s', w') \<longrightarrow>
            event_handler DISCONNECTED ptr s' w'
              = (Returns (), s', emit (event_callback_call cb DISCONNECTED ptr) w'))"
  using assms
  by (auto simp add: event_handler_def emit_def lock_def Let_def split: option.splits)

theorem event_handler_routes_witness:
  "event_callback example_listening_server = Some 1
   \<and> event_handler DISCONNECTED (Some 0) example_listening_server example_world
     = (Returns (),
        example_listening_server\<lparr>connections := {1}\<rparr>,
        example_world\<lparr>log := log example_world @ [event_callback_call 1 DISCONNECTED (Some 0)]\<rparr>)
   \<and> event_handler DISCONNECTED (Some 0)
        (example_listening_server\<lparr>connections := {1}\<rparr>)
        (example_world\<lparr>log := log example_world @ [event_callback_call 1 DISCONNECTED (Some 0)]\<rparr>)
     = (Returns (),
        example_listening_server\<lparr>connections := {1}\<rparr>,
        emit (event_callback_call 1 DISCONNECTED (Some 0))
          (example_world\<lparr>log := log example_world
                            @ [event_callback_call 1 DISCONNECTED (Some 0)]\<rparr>))"
proof -
  have cb: "event_callback example_listening_server = Some 1"
    by (simp add: example_listening_server_def)
  have lk: "lock example_world (Some 0) = Some 0"
    by (simp add: lock_def example_world_def)
  have reg: "connections example_listening_server - {0} = {1}"
    by (auto simp add: example_listening_server_def)
  note routes = event_handler_routes [OF cb, where event = DISCONNECTED and ptr = "Some 0"
      and w = example_world and c = 0 and r = "Returns ()"
      and s' = "example_listening_server\<lparr>connections := {1}\<rparr>"
      and w' = "example_world\<lparr>log := log example_world
                                   @ [event_callback_call 1 DISCONNECTED (Some 0)]\<rparr>"]
  have first: "event_handler DISCONNECTED (Some 0) example_listening_server example_world
     = (Returns (),
        example_listening_server\<lparr>connections := {1}\<rparr>,
        example_world\<lparr>log := log example_world @ [event_callback_call 1 DISCONNECTED (Some 0)]\<rparr>)"
    using routes by (simp add: lk reg emit_def)
  have second: "event_handler DISCONNECTED (Some 0)
        (example_listening_server\<lparr>connections := {1}\<rparr>)
        (example_world\<lparr>log := log example_world @ [event_callback_call 1 DISCONNECTED (Some 0)]\<rparr>)
     = (Returns (),
        example_listening_server\<lparr>connections := {1}\<rparr>,
        emit (event_callback_call 1 DISCONNECTED (Some 0))
          (example_world\<lparr>log := log example_world
                            @ [event_callback_call 1 DISCONNECTED (Some 0)]\<rparr>))"
    using routes first by blast
  from cb first second show ?thesis by blast
qed

text \<open>
  Claim C5. \<open>error_handler\<close> leaves the whole server object (registry, pending slot, both
  acceptors, every configuration field) and every connection as they were; when the error
  callback is set, the one thing that happens is the call of that callback with the error
  and the connection.
\<close>

theorem error_handler_forwards_only:
  "server_of (error_handler error connection s w) = s
   \<and> heap (world_of (error_handler error connection s w)) = heap w
   \<and> (error_callback s = Some cb \<longrightarrow>
        error_handler error connection s w
          = (Returns (), s, w\<lparr>log := log w @ [error_callback_call cb error connection]\<rparr>))"
  by (simp add: error_handler_def emit_def server_of_def world_of_def split: option.splits)

theorem error_handler_forwards_only_witness:
  "error_callback example_listening_server = Some 2
   \<and> error_handler (other_error 104) (Some 0) example_listening_server example_world
     = (Returns (), example_listening_server,
        example_world\<lparr>log := log example_world
                          @ [error_callback_call 2 (other_error 104) (Some 0)]\<rparr>)
   \<and> 0 \<in> connections (server_of
        (error_handler (other_error 104) (Some 0) example_listening_server example_world))"
proof -
  have cb: "error_callback example_listening_server = Some 2"
    by (simp add: example_listening_server_def)
  have reg: "0 \<in> connections example_listening_server"
    by (simp add: example_listening_server_def)
  from error_handler_forwards_only [of "other_error 104" "Some 0" example_listening_server
      example_world 2] cb reg
  show ?thesis by (simp add: server_of_def)
qed

subsection \<open>Closing\<close>

text \<open>
  Claim C6. After \<open>close\<close>, from any server state, both acceptors are closed, the pending
  slot is empty and the registry is empty; a second \<open>close\<close> changes nothing; the
  destructor does what \<open>close\<close> does.
\<close>

theorem close_idempotent:
  "\<not> is_open (acceptor_v6 (close s)) \<and> \<not> is_open (acceptor_v4 (close s))
   \<and> next_connection (close s) = None \<and> connections (close s) = {}
   \<and> close (close s) = close s \<and> destructor s = close s"
  by (simp add: close_def destructor_def acceptor_close_def is_open_def)

theorem close_idempotent_witness:
  "close example_listening_server
     = example_listening_server\<lparr>acceptor_v6 := None, next_connection := None, connections := {}\<rparr>
   \<and> close (close example_listening_server) = close example_listening_server
   \<and> connections (destructor example_listening_server) = {}"
  using close_idempotent [of example_listening_server]
  by (simp add: example_listening_server_def close_def acceptor_close_def)

subsection \<open>The pending connection is never registered\<close>

lemma open_v6_frame:
  "snd (open_v6 os port ipv4_only s) = s\<lparr>acceptor_v6 := acceptor_v6 (snd (open_v6 os port ipv4_only s))\<rparr>"
  by (simp add: open_v6_def Let_def split: prod.splits outcome.splits)

lemma open_v4_frame:
  "snd (open_v4 os port ipv6_only ec s) = s\<lparr>acceptor_v4 := acceptor_v4 (snd (open_v4 os port ipv6_only ec s))\<rparr>"
  by (simp add: open_v4_def Let_def split: prod.splits outcome.splits)

lemma start_accept_fresh:
  assumes "registry_fresh s w" and "start_accept s w = (s', w')"
  shows "registry_fresh s' w'"
proof -
  have s': "s' = s\<lparr>next_connection := Some (next_id w)\<rparr>"
    using assms(2) start_accept_server [of s w] by simp
  have w': "next_id w' = Suc (next_id w)"
    using assms(2) start_accept_next_id [of s w] by simp
  show ?thesis
    using assms(1) by (auto simp add: registry_fresh_def s' w' split: option.splits)
qed

lemma accept_connections_fresh:
  assumes "registry_fresh s w" and "accept_connections os port ipv4_only s w = (r, s', w')"
  shows "registry_fresh s' w'"
proof -
  obtain r6 s6 where v6: "open_v6 os port ipv4_only s = (r6, s6)"
    by (cases "open_v6 os port ipv4_only s")
  have s6: "s6 = s\<lparr>acceptor_v6 := acceptor_v6 s6\<rparr>"
    using open_v6_frame [of os port ipv4_only s] v6 by simp
  have f6: "registry_fresh s6 w"
    using assms(1) by (subst s6) (simp add: registry_fresh_def)
  show ?thesis
  proof (cases r6)
    case (Throws x)
    with assms(2) v6 f6 show ?thesis by (simp add: accept_connections_def)
  next
    case (Returns p)
    obtain ipv6_only ec where p: "p = (ipv6_only, ec)" by (cases p)
    obtain r4 s4 where v4: "open_v4 os port ipv6_only ec s6 = (r4, s4)"
      by (cases "open_v4 os port ipv6_only ec s6")
    have s4: "s4 = s6\<lparr>acceptor_v4 := acceptor_v4 s4\<rparr>"
      using open_v4_frame [of os port ipv6_only ec s6] v4 by simp
    have f4: "registry_fresh s4 w"
      using f6 by (subst s4) (simp add: registry_fresh_def)
    show ?thesis
    proof (cases r4)
      case (Throws x)
      with assms(2) v6 Returns p v4 f4 show ?thesis by (simp add: accept_connections_def)
    next
      case (Returns ec2)
      with assms(2) v6 \<open>r6 = Returns p\<close> p v4 have "start_accept s4 w = (s', w')"
        by (simp add: accept_connections_def split: prod.splits)
      with f4 show ?thesis by (rule start_accept_fresh)
    qed
  qed
qed

lemma connection_start_next_id:
  "next_id (connection_start c nd ka t w) = next_id w"
  by (simp add: connection_start_def split: option.splits)

lemma accept_handler_fresh:
  assumes "registry_fresh s w" and "accept_handler error s w = (u, s', w')"
  shows "registry_fresh s' w'"
proof (cases "(is_open (acceptor_v6 s) \<or> is_open (acceptor_v4 s)) \<and> operation_aborted \<noteq> error")
  case False
  with assms show ?thesis by (auto simp add: accept_handler_def)
next
  case guard: True
  show ?thesis
  proof (cases "error = no_error")
    case False
    show ?thesis
    proof (cases "error_callback s")
      case None
      with assms guard False show ?thesis by (auto simp add: accept_handler_def)
    next
      case (Some cb)
      have "registry_fresh s (emit (error_callback_call cb error (next_connection s)) w)"
        using assms(1) by (simp add: registry_fresh_def emit_def)
      moreover have "start_accept s (emit (error_callback_call cb error (next_connection s)) w) = (s', w')"
        using assms(2) guard False Some by (auto simp add: accept_handler_def Let_def split: prod.splits)
      ultimately show ?thesis by (rule start_accept_fresh)
    qed
  next
    case True
    show ?thesis
    proof (cases "next_connection s")
      case None
      with assms guard True show ?thesis by (auto simp add: accept_handler_def)
    next
      case (Some c)
      let ?s2 = "s\<lparr>connections := insert c (connections s), next_connection := None\<rparr>"
      let ?w1 = "connection_start c (no_delay s) (keep_alive s) (timeout s) w"
      have "registry_fresh ?s2 ?w1"
        using assms(1) Some by (simp add: registry_fresh_def connection_start_next_id)
      moreover have "start_accept ?s2 ?w1 = (s', w')"
        using assms(2) guard True Some by (auto simp add: accept_handler_def Let_def split: prod.splits)
      ultimately show ?thesis by (rule start_accept_fresh)
    qed
  qed
qed

lemma event_handler_fresh:
  assumes "registry_fresh s w" and "event_handler event ptr s w = (u, s', w')"
  shows "registry_fresh s' w'"
  using assms
  by (auto simp add: event_handler_def registry_fresh_def emit_def Let_def
      split: option.splits if_splits)

lemma error_handler_fresh:
  assumes "registry_fresh s w" and "error_handler error ptr s w = (u, s', w')"
  shows "registry_fresh s' w'"
  using assms
  by (auto simp add: error_handler_def registry_fresh_def emit_def split: option.splits)

lemma reachable_fresh: "reachable s w \<Longrightarrow> registry_fresh s w"
proof (induction rule: reachable.induct)
  case (constructed sa io w)
  show ?case by (simp add: registry_fresh_def server_ctor_def)
next
  case (constructed_callbacks io event_cb error_cb w)
  show ?case by (simp add: registry_fresh_def server_ctor_callbacks_def)
next
  case (opened s w os port ipv4_only r s' w')
  then show ?case by (blast intro: accept_connections_fresh)
next
  case (accept_completed s w error u s' w')
  then show ?case by (blast intro: accept_handler_fresh)
next
  case (event_delivered s w event ptr u s' w')
  then show ?case by (blast intro: event_handler_fresh)
next
  case (error_delivered s w error ptr u s' w')
  then show ?case by (blast intro: error_handler_fresh)
next
  case (closed s w)
  then show ?case by (simp add: registry_fresh_def close_def)
next
  case (password_set s w pw)
  then show ?case by (simp add: registry_fresh_def set_password_def)
next
  case (event_callback_set s w event_cb)
  then show ?case by (simp add: registry_fresh_def set_event_callback_def)
next
  case (error_callback_set s w error_cb)
  then show ?case by (simp add: registry_fresh_def set_error_callback_def)
next
  case (rx_buffer_size_set s w sz)
  then show ?case by (simp add: registry_fresh_def set_rx_buffer_size_def)
next
  case (no_delay_set s w enable)
  then show ?case by (simp add: registry_fresh_def set_no_delay_def)
next
  case (keep_alive_set s w enable)
  then show ?case by (simp add: registry_fresh_def set_keep_alive_def)
next
  case (timeout_set s w t)
  then show ?case by (simp add: registry_fresh_def set_timeout_def)
qed

text \<open>
  Claim C9. In every state that the constructors, \<open>accept_connections\<close>, the accept
  completions, the event and error deliveries, \<open>close\<close> and the setters can reach, the
  connection in the pending slot is not in the registry.
\<close>

theorem pending_not_registered:
  assumes "reachable s w" and "next_connection s = Some c"
  shows "c \<notin> connections s"
  using reachable_fresh [OF assms(1)] assms(2) by (simp add: registry_fresh_def)


lemma example_opened:
  "accept_connections os_dual_stack 8080 False
     (set_error_callback 2 (set_event_callback 1 (server_ctor example_adaptor 0))) empty_world
   = (Returns no_error,
      example_listening_server\<lparr>next_connection := Some 0, connections := {}\<rparr>,
      \<lparr>heap = [0 \<mapsto> \<lparr>conn_rx_buffer_size = Some 8192, started = None\<rparr>],
       next_id = 1, log = [async_accept V6 0]\<rparr>)"
  by (simp add: accept_connections_def open_v6_def open_v4_def reuse_bind_listen_def
      acceptor_open_def set_option_v6_only_def get_option_v6_only_def
      set_option_reuse_address_def acceptor_bind_def acceptor_listen_def is_open_def
      start_accept_def connection_create_def emit_def os_dual_stack_def
      set_error_callback_def set_event_callback_def server_ctor_def example_adaptor_def
      empty_world_def example_listening_server_def)

lemma example_first_accept:
  "accept_handler no_error
     (example_listening_server\<lparr>next_connection := Some 0, connections := {}\<rparr>)
     \<lparr>heap = [0 \<mapsto> \<lparr>conn_rx_buffer_size = Some 8192, started = None\<rparr>],
      next_id = 1, log = [async_accept V6 0]\<rparr>
   = (Returns (),
      example_listening_server\<lparr>next_connection := Some 1, connections := {0}\<rparr>,
      \<lparr>heap = [0 \<mapsto> \<lparr>conn_rx_buffer_size = Some 8192, started = Some (False, False, 0)\<rparr>,
               1 \<mapsto> \<lparr>conn_rx_buffer_size = Some 8192, started = None\<rparr>],
       next_id = 2, log = [async_accept V6 0, async_accept V6 1]\<rparr>)"
  by (simp add: accept_handler_def connection_start_def is_open_def
      start_accept_def connection_create_def emit_def example_listening_server_def)

lemma example_second_accept:
  "accept_handler no_error
     (example_listening_server\<lparr>next_connection := Some 1, connections := {0}\<rparr>)
     \<lparr>heap = [0 \<mapsto> \<lparr>conn_rx_buffer_size = Some 8192, started = Some (False, False, 0)\<rparr>,
              1 \<mapsto> \<lparr>conn_rx_buffer_size = Some 8192, started = None\<rparr>],
      next_id = 2, log = [async_accept V6 0, async_accept V6 1]\<rparr>
   = (Returns (), example_listening_server, example_world)"
  by (simp add: accept_handler_def connection_start_def is_open_def
      start_accept_def connection_create_def emit_def example_listening_server_def
      example_world_def insert_commute)

lemma example_reachable: "reachable example_listening_server example_world"
proof -
  have "reachable (server_ctor example_adaptor 0) empty_world"
    by (rule reachable.constructed)
  then have "reachable (set_event_callback 1 (server_ctor example_adaptor 0)) empty_world"
    by (rule reachable.event_callback_set)
  then have "reachable (set_error_callback 2 (set_event_callback 1 (server_ctor example_adaptor 0)))
      empty_world"
    by (rule reachable.error_callback_set)
  then have "reachable (example_listening_server\<lparr>next_connection := Some 0, connections := {}\<rparr>)
      \<lparr>heap = [0 \<mapsto> \<lparr>conn_rx_buffer_size = Some 8192, started = None\<rparr>],
       next_id = 1, log = [async_accept V6 0]\<rparr>"
    using example_opened by (rule reachable.opened)
  then have "reachable (example_listening_server\<lparr>next_connection := Some 1, connections := {0}\<rparr>)
      \<lparr>heap = [0 \<mapsto> \<lparr>conn_rx_buffer_size = Some 8192, started = Some (False, False, 0)\<rparr>,
               1 \<mapsto> \<lparr>conn_rx_buffer_size = Some 8192, started = None\<rparr>],
       next_id = 2, log = [async_accept V6 0, async_accept V6 1]\<rparr>"
    using example_first_accept by (rule reachable.accept_completed)
  then show ?thesis
    using example_second_accept by (rule reachable.accept_completed)
qed

theorem pending_not_registered_witness:
  "reachable example_listening_server example_world
   \<and> next_connection example_listening_server = Some 2
   \<and> 2 \<notin> connections example_listening_server"
proof -
  have pending: "next_connection example_listening_server = Some 2"
    by (simp add: example_listening_server_def)
  from example_reachable pending pending_not_registered [OF example_reachable pending]
  show ?thesis by blast
qed

subsection \<open>Opening the listeners\<close>

lemma closed_is_None: "\<not> is_open a \<longleftrightarrow> a = None"
  by (simp add: is_open_def split: option.splits)

lemma reuse_bind_listen_open:
  "reuse_bind_listen os fam port (Some sk) =
     (if reuse_result os fam \<noteq> no_error
      then (Throws (system_error (reuse_result os fam)), Some sk)
      else if bind_result os fam port \<noteq> no_error
      then (Throws (system_error (bind_result os fam port)), Some (sk\<lparr>reuse_address := True\<rparr>))
      else if listen_result os fam \<noteq> no_error
      then (Throws (system_error (listen_result os fam)),
            Some (sk\<lparr>reuse_address := True, bound := Some port\<rparr>))
      else (Returns (),
            Some (sk\<lparr>reuse_address := True, bound := Some port, listening := True\<rparr>)))"
  by (simp add: reuse_bind_listen_def set_option_reuse_address_def acceptor_bind_def
      acceptor_listen_def)

lemma open_v6_closed:
  assumes "acceptor_v6 s = None"
  shows "open_v6 os port ipv4_only s =
     (if ipv4_only then (Returns (False, no_error), s)
      else if open_result os V6 \<noteq> no_error then (Returns (False, open_result os V6), s)
      else if get_v6only_result os \<noteq> no_error
      then (Throws (system_error (get_v6only_result os)),
            s\<lparr>acceptor_v6 := Some \<lparr>v6_only = (v6only_default os \<and> set_v6only_result os \<noteq> no_error),
                                   reuse_address = False, bound = None, listening = False\<rparr>\<rparr>)
      else (case reuse_bind_listen os V6 port
                   (Some \<lparr>v6_only = (v6only_default os \<and> set_v6only_result os \<noteq> no_error),
                          reuse_address = False, bound = None, listening = False\<rparr>) of
              (Throws x, a) \<Rightarrow> (Throws x, s\<lparr>acceptor_v6 := a\<rparr>)
            | (Returns u, a) \<Rightarrow>
                (Returns (v6only_default os \<and> set_v6only_result os \<noteq> no_error,
                          set_v6only_result os),
                 s\<lparr>acceptor_v6 := a\<rparr>)))"
  using assms
  by (cases s) (auto simp add: open_v6_def acceptor_open_def set_option_v6_only_def
      get_option_v6_only_def is_open_def Let_def split: prod.splits outcome.splits)

lemma open_v4_closed:
  assumes "acceptor_v4 s = None"
  shows "open_v4 os port ipv6_only ec s =
     (if \<not> is_open (acceptor_v6 s) \<or> ipv6_only then
        (if open_result os V4 \<noteq> no_error then (Returns (open_result os V4), s)
         else (case reuse_bind_listen os V4 port
                     (Some \<lparr>v6_only = False, reuse_address = False, bound = None,
                            listening = False\<rparr>) of
                 (Throws x, a) \<Rightarrow> (Throws x, s\<lparr>acceptor_v4 := a\<rparr>)
               | (Returns u, a) \<Rightarrow> (Returns no_error, s\<lparr>acceptor_v4 := a\<rparr>)))
      else (Returns ec, s))"
  using assms
  by (cases s) (auto simp add: open_v4_def acceptor_open_def is_open_def Let_def
      split: prod.splits outcome.splits)

lemma fresh_server_closed:
  "\<not> is_open (acceptor_v6 (server_ctor sa io))" "\<not> is_open (acceptor_v4 (server_ctor sa io))"
  by (simp_all add: server_ctor_def is_open_def)

text \<open>
  Claim C2, the claim as stated fails. On a new server asked for IPv4 only, with the port
  taken, \<open>bind\<close> fails with \<open>address_in_use\<close>: \<open>accept_connections\<close> does not return this
  error code, it leaves by the exception \<open>system_error\<close> that \<open>bind\<close> throws.
\<close>

theorem accept_connections_bind_failure_thrown:
  "bind_result os_port_in_use V4 8080 = address_in_use
   \<and> accept_connections os_port_in_use 8080 True (server_ctor example_adaptor 0) empty_world
     = (Throws (system_error address_in_use),
        (server_ctor example_adaptor 0)
          \<lparr>acceptor_v4 := Some \<lparr>v6_only = False, reuse_address = True, bound = None,
                                listening = False\<rparr>\<rparr>,
        empty_world)
   \<and> result_of (accept_connections os_port_in_use 8080 True (server_ctor example_adaptor 0)
        empty_world) \<noteq> Returns address_in_use"
  by (simp add: accept_connections_def open_v6_def open_v4_def reuse_bind_listen_def
      acceptor_open_def set_option_reuse_address_def acceptor_bind_def is_open_def
      os_port_in_use_def os_dual_stack_def server_ctor_def result_of_def)

text \<open>
  Claim C2, amended. On a server whose acceptors are closed, when \<open>bind\<close> or \<open>listen\<close>
  fails on an endpoint that \<open>accept_connections\<close> has opened, the call throws a
  \<open>system_error\<close> that carries an error; the world is unchanged (no connection is
  created and no accept is requested), the registry and the pending slot are unchanged,
  and an IPv6 acceptor that was opened stays open; when the failure is on IPv4 after IPv6
  was set up completely, the IPv6 acceptor stays bound to the port and listening.
\<close>

theorem accept_connections_bind_listen_failure:
  assumes "\<not> is_open (acceptor_v6 s)" and "\<not> is_open (acceptor_v4 s)"
    and "accept_connections os port ipv4_only s w = (r, s', w')"
    and "(\<not> ipv4_only \<and> open_result os V6 = no_error
            \<and> (bind_result os V6 port \<noteq> no_error \<or> listen_result os V6 \<noteq> no_error))
         \<or> ((ipv4_only \<or> open_result os V6 \<noteq> no_error
               \<or> (v6only_default os \<and> set_v6only_result os \<noteq> no_error))
             \<and> open_result os V4 = no_error
             \<and> (bind_result os V4 port \<noteq> no_error \<or> listen_result os V4 \<noteq> no_error))"
  shows "(\<exists>e. e \<noteq> no_error \<and> r = Throws (system_error e))
       \<and> w' = w \<and> connections s' = connections s \<and> next_connection s' = next_connection s
       \<and> (\<not> ipv4_only \<and> open_result os V6 = no_error \<longrightarrow> is_open (acceptor_v6 s'))
       \<and> (\<not> ipv4_only \<and> open_result os V6 = no_error \<and> get_v6only_result os = no_error
            \<and> reuse_result os V6 = no_error \<and> bind_result os V6 port = no_error
            \<and> listen_result os V6 = no_error \<longrightarrow>
            acceptor_v6 s' = Some \<lparr>v6_only = True, reuse_address = True, bound = Some port,
                                   listening = True\<rparr>)"
proof -
  have c6: "acceptor_v6 s = None" and c4: "acceptor_v4 s = None"
    using assms(1,2) by (simp_all add: closed_is_None)
  show ?thesis
    using assms(3,4) c4
    by (auto simp add: accept_connections_def open_v6_closed [OF c6] open_v4_closed
        reuse_bind_listen_open is_open_def c6 split: if_splits)
qed

theorem accept_connections_bind_listen_failure_witness:
  "\<not> is_open (acceptor_v6 (server_ctor example_adaptor 0))
   \<and> \<not> is_open (acceptor_v4 (server_ctor example_adaptor 0))
   \<and> bind_result os_v6_only_v4_port_in_use V4 8080 = address_in_use
   \<and> accept_connections os_v6_only_v4_port_in_use 8080 False (server_ctor example_adaptor 0)
        empty_world
     = (Throws (system_error address_in_use),
        (server_ctor example_adaptor 0)
          \<lparr>acceptor_v6 := Some \<lparr>v6_only = True, reuse_address = True, bound = Some 8080,
                                listening = True\<rparr>,
            acceptor_v4 := Some \<lparr>v6_only = False, reuse_address = True, bound = None,
                                listening = False\<rparr>\<rparr>,
        empty_world)
   \<and> connections ((server_ctor example_adaptor 0)
          \<lparr>acceptor_v6 := Some \<lparr>v6_only = True, reuse_address = True, bound = Some 8080,
                                listening = True\<rparr>,
            acceptor_v4 := Some \<lparr>v6_only = False, reuse_address = True, bound = None,
                                listening = False\<rparr>\<rparr>) = {}"
proof -
  have run: "accept_connections os_v6_only_v4_port_in_use 8080 False
        (server_ctor example_adaptor 0) empty_world
     = (Throws (system_error address_in_use),
        (server_ctor example_adaptor 0)
          \<lparr>acceptor_v6 := Some \<lparr>v6_only = True, reuse_address = True, bound = Some 8080,
                                listening = True\<rparr>,
            acceptor_v4 := Some \<lparr>v6_only = False, reuse_address = True, bound = None,
                                listening = False\<rparr>\<rparr>,
        empty_world)"
    by (simp add: accept_connections_def open_v6_def open_v4_def reuse_bind_listen_def
        acceptor_open_def set_option_v6_only_def get_option_v6_only_def
        set_option_reuse_address_def acceptor_bind_def acceptor_listen_def is_open_def
        os_v6_only_v4_port_in_use_def os_v6_only_def os_dual_stack_def server_ctor_def)
  have fails: "bind_result os_v6_only_v4_port_in_use V4 8080 = address_in_use"
    by (simp add: os_v6_only_v4_port_in_use_def)
  have tried: "(\<not> False \<and> open_result os_v6_only_v4_port_in_use V6 = no_error
            \<and> (bind_result os_v6_only_v4_port_in_use V6 8080 \<noteq> no_error
                \<or> listen_result os_v6_only_v4_port_in_use V6 \<noteq> no_error))
         \<or> ((False \<or> open_result os_v6_only_v4_port_in_use V6 \<noteq> no_error
               \<or> (v6only_default os_v6_only_v4_port_in_use
                   \<and> set_v6only_result os_v6_only_v4_port_in_use \<noteq> no_error))
             \<and> open_result os_v6_only_v4_port_in_use V4 = no_error
             \<and> (bind_result os_v6_only_v4_port_in_use V4 8080 \<noteq> no_error
                 \<or> listen_result os_v6_only_v4_port_in_use V4 \<noteq> no_error))"
    by (simp add: os_v6_only_v4_port_in_use_def os_v6_only_def os_dual_stack_def)
  have "connections ((server_ctor example_adaptor 0)
          \<lparr>acceptor_v6 := Some \<lparr>v6_only = True, reuse_address = True, bound = Some 8080,
                                listening = True\<rparr>,
            acceptor_v4 := Some \<lparr>v6_only = False, reuse_address = True, bound = None,
                                listening = False\<rparr>\<rparr>)
        = connections (server_ctor example_adaptor 0)"
    using accept_connections_bind_listen_failure [OF fresh_server_closed run tried] by blast
  then have empty: "connections ((server_ctor example_adaptor 0)
          \<lparr>acceptor_v6 := Some \<lparr>v6_only = True, reuse_address = True, bound = Some 8080,
                                listening = True\<rparr>,
            acceptor_v4 := Some \<lparr>v6_only = False, reuse_address = True, bound = None,
                                listening = False\<rparr>\<rparr>) = {}"
    by (simp add: server_ctor_def)
  from fresh_server_closed [of example_adaptor 0] fails run empty show ?thesis by blast
qed

lemma open_v6_already_open:
  assumes "acceptor_v6 s = Some sk"
  shows "open_v6 os port ipv4_only s =
     (if ipv4_only then (Returns (False, no_error), s) else (Returns (False, already_open), s))"
  using assms
  by (cases s) (auto simp add: open_v6_def acceptor_open_def is_open_def)

lemma open_v4_already_open:
  assumes "acceptor_v4 s = Some sk"
  shows "open_v4 os port ipv6_only ec s =
     (if \<not> is_open (acceptor_v6 s) \<or> ipv6_only then (Returns already_open, s)
      else (Returns ec, s))"
  using assms
  by (cases s) (auto simp add: open_v4_def acceptor_open_def is_open_def)

lemma start_accept_acceptors:
  "start_accept x y = (s', w') \<Longrightarrow>
     acceptor_v6 s' = acceptor_v6 x \<and> acceptor_v4 s' = acceptor_v4 x"
  using start_accept_server [of x y] by (cases "start_accept x y") simp

text \<open>
  Claim C3, the claim as stated fails, on two calls. First, where IPv6 sockets stay
  v6-only and the port is taken for IPv6, the IPv6 acceptor is open and restricted to
  IPv6 when \<open>bind\<close> throws, and the IPv4 acceptor is never opened. Second, a call that
  returns: after a first call that opened the IPv6 acceptor v6-only and got no IPv4
  socket, a second call finds the IPv6 acceptor open, so \<open>open\<close> answers \<open>already_open\<close>
  and the local \<open>ipv6_only\<close> keeps its initial value \<open>false\<close> (line 258); the test at
  line 279 fails and the IPv4 acceptor is not opened, although the IPv6 acceptor is open
  and restricted to IPv6 and an IPv4 socket could now be opened.
\<close>

theorem accept_connections_v4_skipped:
  "accept_connections os_v6_only_v6_port_in_use 8080 False (server_ctor example_adaptor 0)
        empty_world
     = (Throws (system_error address_in_use),
        (server_ctor example_adaptor 0)
          \<lparr>acceptor_v6 := Some \<lparr>v6_only = True, reuse_address = True, bound = None,
                                listening = False\<rparr>\<rparr>,
        empty_world)
   \<and> is_open (acceptor_v6 (server_of (accept_connections os_v6_only_v6_port_in_use 8080 False
        (server_ctor example_adaptor 0) empty_world)))
   \<and> is_v6_only (acceptor_v6 (server_of (accept_connections os_v6_only_v6_port_in_use 8080
        False (server_ctor example_adaptor 0) empty_world)))
   \<and> \<not> is_open (acceptor_v4 (server_of (accept_connections os_v6_only_v6_port_in_use 8080 False
        (server_ctor example_adaptor 0) empty_world)))
   \<and> accept_connections os_v6_only_no_v4 8080 False (server_ctor example_adaptor 0) empty_world
     = (Returns (other_error 97),
        ((server_ctor example_adaptor 0)
          \<lparr>acceptor_v6 := Some \<lparr>v6_only = True, reuse_address = True, bound = Some 8080,
                                listening = True\<rparr>,
            next_connection := Some 0\<rparr>),
        \<lparr>heap = [0 \<mapsto> \<lparr>conn_rx_buffer_size = Some 8192, started = None\<rparr>],
         next_id = 1, log = [async_accept V6 0]\<rparr>)
   \<and> open_result os_v6_only V4 = no_error
   \<and> accept_connections os_v6_only 8080 False
        ((server_ctor example_adaptor 0)
          \<lparr>acceptor_v6 := Some \<lparr>v6_only = True, reuse_address = True, bound = Some 8080,
                                listening = True\<rparr>,
            next_connection := Some 0\<rparr>)
        \<lparr>heap = [0 \<mapsto> \<lparr>conn_rx_buffer_size = Some 8192, started = None\<rparr>],
         next_id = 1, log = [async_accept V6 0]\<rparr>
     = (Returns already_open,
        ((server_ctor example_adaptor 0)
          \<lparr>acceptor_v6 := Some \<lparr>v6_only = True, reuse_address = True, bound = Some 8080,
                                listening = True\<rparr>,
            next_connection := Some 1\<rparr>),
        \<lparr>heap = [0 \<mapsto> \<lparr>conn_rx_buffer_size = Some 8192, started = None\<rparr>,
                 1 \<mapsto> \<lparr>conn_rx_buffer_size = Some 8192, started = None\<rparr>],
         next_id = 2, log = [async_accept V6 0, async_accept V6 1]\<rparr>)
   \<and> is_open (acceptor_v6 ((server_ctor example_adaptor 0)
          \<lparr>acceptor_v6 := Some \<lparr>v6_only = True, reuse_address = True, bound = Some 8080,
                                listening = True\<rparr>,
            next_connection := Some 1\<rparr>))
   \<and> is_v6_only (acceptor_v6 ((server_ctor example_adaptor 0)
          \<lparr>acceptor_v6 := Some \<lparr>v6_only = True, reuse_address = True, bound = Some 8080,
                                listening = True\<rparr>,
            next_connection := Some 1\<rparr>))
   \<and> \<not> is_open (acceptor_v4 ((server_ctor example_adaptor 0)
          \<lparr>acceptor_v6 := Some \<lparr>v6_only = True, reuse_address = True, bound = Some 8080,
                                listening = True\<rparr>,
            next_connection := Some 1\<rparr>))"
  by (simp add: accept_connections_def open_v6_def open_v4_def reuse_bind_listen_def
      acceptor_open_def set_option_v6_only_def get_option_v6_only_def
      set_option_reuse_address_def acceptor_bind_def acceptor_listen_def is_open_def
      is_v6_only_def server_of_def start_accept_def connection_create_def emit_def
      empty_world_def example_adaptor_def os_v6_only_v6_port_in_use_def os_v6_only_no_v4_def
      os_v6_only_def os_dual_stack_def server_ctor_def)

text \<open>
  Claim C3, amended. For every call of \<open>accept_connections\<close>, in any state of the server.
  When the call returns: the IPv6 acceptor is open afterwards exactly when it was open
  before or IPv4 only was not asked for and the IPv6 open succeeded; when the IPv6
  acceptor is not open, or was opened by this call and stayed restricted to IPv6, an IPv4
  acceptor that was closed and whose open succeeds has address reuse set, is bound to the
  port and listens, and otherwise the IPv4 acceptor is left as it was; when the IPv6
  acceptor is open in dual-stack mode the IPv4 acceptor is left as it was. When this call
  opened the IPv6 acceptor and one of the steps made on it without an error code
  (\<open>get_option\<close>, address reuse, \<open>bind\<close>, \<open>listen\<close>) fails, the call throws a
  \<open>system_error\<close> that carries an error, the IPv6 acceptor stays open, the IPv4 acceptor
  is left as it was and the world is unchanged (no accept is requested). Nothing is said
  of a returning call that finds the IPv6 acceptor already open and restricted to IPv6.
\<close>

theorem accept_connections_dual_open_rule:
  assumes "accept_connections os port ipv4_only s w = (r, s', w')"
  shows "(r = Returns ec \<longrightarrow>
            (is_open (acceptor_v6 s') \<longleftrightarrow>
               is_open (acceptor_v6 s) \<or> (\<not> ipv4_only \<and> open_result os V6 = no_error))
          \<and> (\<not> is_open (acceptor_v6 s')
               \<or> (\<not> is_open (acceptor_v6 s) \<and> is_v6_only (acceptor_v6 s')) \<longrightarrow>
               acceptor_v4 s'
                 = (if \<not> is_open (acceptor_v4 s) \<and> open_result os V4 = no_error
                    then Some \<lparr>v6_only = False, reuse_address = True, bound = Some port,
                               listening = True\<rparr>
                    else acceptor_v4 s))
          \<and> (is_open (acceptor_v6 s') \<and> \<not> is_v6_only (acceptor_v6 s') \<longrightarrow>
               acceptor_v4 s' = acceptor_v4 s))
       \<and> (\<not> ipv4_only \<and> \<not> is_open (acceptor_v6 s) \<and> open_result os V6 = no_error
            \<and> (get_v6only_result os \<noteq> no_error \<or> reuse_result os V6 \<noteq> no_error
                \<or> bind_result os V6 port \<noteq> no_error \<or> listen_result os V6 \<noteq> no_error) \<longrightarrow>
            (\<exists>e. e \<noteq> no_error \<and> r = Throws (system_error e))
            \<and> is_open (acceptor_v6 s') \<and> acceptor_v4 s' = acceptor_v4 s \<and> w' = w)"
proof -
  have returned: "(is_open (acceptor_v6 s') \<longleftrightarrow>
               is_open (acceptor_v6 s) \<or> (\<not> ipv4_only \<and> open_result os V6 = no_error))
          \<and> (\<not> is_open (acceptor_v6 s')
               \<or> (\<not> is_open (acceptor_v6 s) \<and> is_v6_only (acceptor_v6 s')) \<longrightarrow>
               acceptor_v4 s'
                 = (if \<not> is_open (acceptor_v4 s) \<and> open_result os V4 = no_error
                    then Some \<lparr>v6_only = False, reuse_address = True, bound = Some port,
                               listening = True\<rparr>
                    else acceptor_v4 s))
          \<and> (is_open (acceptor_v6 s') \<and> \<not> is_v6_only (acceptor_v6 s') \<longrightarrow>
               acceptor_v4 s' = acceptor_v4 s)" if ret: "r = Returns ec"
  proof (cases "acceptor_v6 s")
    case c6: None
    show ?thesis
    proof (cases "acceptor_v4 s")
      case c4: None
      show ?thesis
        using assms ret c4
        by (auto simp add: accept_connections_def open_v6_closed [OF c6] open_v4_closed
            reuse_bind_listen_open is_open_def is_v6_only_def c6
            split: if_splits prod.splits dest!: start_accept_acceptors)
    next
      case o4: (Some sk4)
      show ?thesis
        using assms ret o4
        by (auto simp add: accept_connections_def open_v6_closed [OF c6] open_v4_already_open
            reuse_bind_listen_open is_open_def is_v6_only_def c6
            split: if_splits prod.splits dest!: start_accept_acceptors)
    qed
  next
    case o6: (Some sk6)
    show ?thesis
    proof (cases "acceptor_v4 s")
      case c4: None
      show ?thesis
        using assms ret c4
        by (auto simp add: accept_connections_def open_v6_already_open [OF o6] open_v4_closed
            reuse_bind_listen_open is_open_def is_v6_only_def o6
            split: if_splits prod.splits dest!: start_accept_acceptors)
    next
      case o4: (Some sk4)
      show ?thesis
        using assms ret o4
        by (auto simp add: accept_connections_def open_v6_already_open [OF o6]
            open_v4_already_open is_open_def is_v6_only_def o6
            split: if_splits prod.splits dest!: start_accept_acceptors)
    qed
  qed
  have thrown: "(\<exists>e. e \<noteq> no_error \<and> r = Throws (system_error e))
            \<and> is_open (acceptor_v6 s') \<and> acceptor_v4 s' = acceptor_v4 s \<and> w' = w"
    if "\<not> ipv4_only" and "\<not> is_open (acceptor_v6 s)" and "open_result os V6 = no_error"
      and "get_v6only_result os \<noteq> no_error \<or> reuse_result os V6 \<noteq> no_error
                \<or> bind_result os V6 port \<noteq> no_error \<or> listen_result os V6 \<noteq> no_error"
  proof -
    have c6: "acceptor_v6 s = None"
      using that(2) by (simp add: closed_is_None)
    show ?thesis
      using assms that(1,3,4)
      by (auto simp add: accept_connections_def open_v6_closed [OF c6]
          reuse_bind_listen_open is_open_def split: if_splits)
  qed
  show ?thesis
    using returned thrown by blast
qed

theorem accept_connections_dual_open_rule_witness:
  "accept_connections os_v6_only 8080 False (server_ctor example_adaptor 0) empty_world
     = (Returns no_error,
        ((server_ctor example_adaptor 0)
          \<lparr>acceptor_v6 := Some \<lparr>v6_only = True, reuse_address = True, bound = Some 8080,
                                listening = True\<rparr>,
            acceptor_v4 := Some \<lparr>v6_only = False, reuse_address = True, bound = Some 8080,
                                listening = True\<rparr>,
            next_connection := Some 0\<rparr>),
        \<lparr>heap = [0 \<mapsto> \<lparr>conn_rx_buffer_size = Some 8192, started = None\<rparr>],
         next_id = 1, log = [async_accept V6 0, async_accept V4 0]\<rparr>)
   \<and> acceptor_v4 ((server_ctor example_adaptor 0)
          \<lparr>acceptor_v6 := Some \<lparr>v6_only = True, reuse_address = True, bound = Some 8080,
                                listening = True\<rparr>,
            acceptor_v4 := Some \<lparr>v6_only = False, reuse_address = True, bound = Some 8080,
                                listening = True\<rparr>,
            next_connection := Some 0\<rparr>)
     = Some \<lparr>v6_only = False, reuse_address = True, bound = Some 8080,
                                listening = True\<rparr>
   \<and> accept_connections os_dual_stack 8080 False (server_ctor example_adaptor 0) empty_world
     = (Returns no_error,
        ((server_ctor example_adaptor 0)
          \<lparr>acceptor_v6 := Some \<lparr>v6_only = False, reuse_address = True, bound = Some 8080,
                                listening = True\<rparr>,
            next_connection := Some 0\<rparr>),
        \<lparr>heap = [0 \<mapsto> \<lparr>conn_rx_buffer_size = Some 8192, started = None\<rparr>],
         next_id = 1, log = [async_accept V6 0]\<rparr>)
   \<and> acceptor_v4 ((server_ctor example_adaptor 0)
          \<lparr>acceptor_v6 := Some \<lparr>v6_only = False, reuse_address = True, bound = Some 8080,
                                listening = True\<rparr>,
            next_connection := Some 0\<rparr>) = None
   \<and> accept_connections os_port_in_use 8080 False (server_ctor example_adaptor 0) empty_world
     = (Throws (system_error address_in_use),
        ((server_ctor example_adaptor 0)
          \<lparr>acceptor_v6 := Some \<lparr>v6_only = False, reuse_address = True, bound = None,
                                listening = False\<rparr>\<rparr>),
        empty_world)
   \<and> acceptor_v4 ((server_ctor example_adaptor 0)
          \<lparr>acceptor_v6 := Some \<lparr>v6_only = False, reuse_address = True, bound = None,
                                listening = False\<rparr>\<rparr>) = None"
proof -
  have new4: "acceptor_v4 (server_ctor example_adaptor 0) = None"
    and new6: "\<not> is_open (acceptor_v6 (server_ctor example_adaptor 0))"
    by (simp_all add: server_ctor_def is_open_def)
  have run: "accept_connections os_v6_only 8080 False (server_ctor example_adaptor 0) empty_world
     = (Returns no_error,
        ((server_ctor example_adaptor 0)
          \<lparr>acceptor_v6 := Some \<lparr>v6_only = True, reuse_address = True, bound = Some 8080,
                                listening = True\<rparr>,
            acceptor_v4 := Some \<lparr>v6_only = False, reuse_address = True, bound = Some 8080,
                                listening = True\<rparr>,
            next_connection := Some 0\<rparr>),
        \<lparr>heap = [0 \<mapsto> \<lparr>conn_rx_buffer_size = Some 8192, started = None\<rparr>],
         next_id = 1, log = [async_accept V6 0, async_accept V4 0]\<rparr>)"
    by (simp add: accept_connections_def open_v6_def open_v4_def reuse_bind_listen_def
        acceptor_open_def set_option_v6_only_def get_option_v6_only_def
        set_option_reuse_address_def acceptor_bind_def acceptor_listen_def is_open_def
        start_accept_def connection_create_def emit_def empty_world_def example_adaptor_def
        os_v6_only_def os_dual_stack_def server_ctor_def)
  have v6: "\<not> is_open (acceptor_v6 (server_ctor example_adaptor 0))
      \<and> is_v6_only (acceptor_v6 ((server_ctor example_adaptor 0)
          \<lparr>acceptor_v6 := Some \<lparr>v6_only = True, reuse_address = True, bound = Some 8080,
                                listening = True\<rparr>,
            acceptor_v4 := Some \<lparr>v6_only = False, reuse_address = True, bound = Some 8080,
                                listening = True\<rparr>,
            next_connection := Some 0\<rparr>))"
    and v4: "\<not> is_open (acceptor_v4 (server_ctor example_adaptor 0))
      \<and> open_result os_v6_only V4 = no_error"
    by (simp_all add: is_v6_only_def is_open_def os_v6_only_def os_dual_stack_def
        server_ctor_def)
  have both: "acceptor_v4 ((server_ctor example_adaptor 0)
          \<lparr>acceptor_v6 := Some \<lparr>v6_only = True, reuse_address = True, bound = Some 8080,
                                listening = True\<rparr>,
            acceptor_v4 := Some \<lparr>v6_only = False, reuse_address = True, bound = Some 8080,
                                listening = True\<rparr>,
            next_connection := Some 0\<rparr>)
     = Some \<lparr>v6_only = False, reuse_address = True, bound = Some 8080,
                                listening = True\<rparr>"
    using accept_connections_dual_open_rule [OF run, where ec = no_error] v6 v4 by simp
  have run_dual: "accept_connections os_dual_stack 8080 False (server_ctor example_adaptor 0)
        empty_world
     = (Returns no_error,
        ((server_ctor example_adaptor 0)
          \<lparr>acceptor_v6 := Some \<lparr>v6_only = False, reuse_address = True, bound = Some 8080,
                                listening = True\<rparr>,
            next_connection := Some 0\<rparr>),
        \<lparr>heap = [0 \<mapsto> \<lparr>conn_rx_buffer_size = Some 8192, started = None\<rparr>],
         next_id = 1, log = [async_accept V6 0]\<rparr>)"
    by (simp add: accept_connections_def open_v6_def open_v4_def reuse_bind_listen_def
        acceptor_open_def set_option_v6_only_def get_option_v6_only_def
        set_option_reuse_address_def acceptor_bind_def acceptor_listen_def is_open_def
        start_accept_def connection_create_def emit_def empty_world_def example_adaptor_def
        os_v6_only_def os_dual_stack_def server_ctor_def)
  have dual: "is_open (acceptor_v6 ((server_ctor example_adaptor 0)
          \<lparr>acceptor_v6 := Some \<lparr>v6_only = False, reuse_address = True, bound = Some 8080,
                                listening = True\<rparr>,
            next_connection := Some 0\<rparr>))
      \<and> \<not> is_v6_only (acceptor_v6 ((server_ctor example_adaptor 0)
          \<lparr>acceptor_v6 := Some \<lparr>v6_only = False, reuse_address = True, bound = Some 8080,
                                listening = True\<rparr>,
            next_connection := Some 0\<rparr>))"
    by (simp add: is_open_def is_v6_only_def)
  have single: "acceptor_v4 ((server_ctor example_adaptor 0)
          \<lparr>acceptor_v6 := Some \<lparr>v6_only = False, reuse_address = True, bound = Some 8080,
                                listening = True\<rparr>,
            next_connection := Some 0\<rparr>) = None"
    using accept_connections_dual_open_rule [OF run_dual, where ec = no_error] dual new4 by simp
  have run_thrown: "accept_connections os_port_in_use 8080 False (server_ctor example_adaptor 0)
        empty_world
     = (Throws (system_error address_in_use),
        ((server_ctor example_adaptor 0)
          \<lparr>acceptor_v6 := Some \<lparr>v6_only = False, reuse_address = True, bound = None,
                                listening = False\<rparr>\<rparr>),
        empty_world)"
    by (simp add: accept_connections_def open_v6_def open_v4_def reuse_bind_listen_def
        acceptor_open_def set_option_v6_only_def get_option_v6_only_def
        set_option_reuse_address_def acceptor_bind_def acceptor_listen_def is_open_def
        start_accept_def connection_create_def emit_def empty_world_def example_adaptor_def
        os_v6_only_def os_dual_stack_def server_ctor_def os_port_in_use_def)
  have fails: "open_result os_port_in_use V6 = no_error
      \<and> bind_result os_port_in_use V6 8080 \<noteq> no_error"
    by (simp add: os_port_in_use_def os_dual_stack_def)
  have none: "acceptor_v4 ((server_ctor example_adaptor 0)
          \<lparr>acceptor_v6 := Some \<lparr>v6_only = False, reuse_address = True, bound = None,
                                listening = False\<rparr>\<rparr>) = None"
    using accept_connections_dual_open_rule [OF run_thrown, where ec = no_error] fails new6 new4 by simp
  from run both run_dual single run_thrown none show ?thesis by blast
qed

subsection \<open>Configuration\<close>

lemma accept_handler_heap_frame:
  assumes "next_connection s \<noteq> Some c" and "c \<noteq> next_id w"
  shows "heap (world_of (accept_handler error s w)) c = heap w c"
  using assms
  by (auto simp add: accept_handler_def world_of_def connection_start_def emit_def Let_def
      case_prod_beta start_accept_heap split: option.splits)

lemma accept_handler_rx_frame:
  assumes "c \<noteq> next_id w"
  shows "map_option conn_rx_buffer_size (heap (world_of (accept_handler error s w)) c)
           = map_option conn_rx_buffer_size (heap w c)"
  using assms
  by (auto simp add: accept_handler_def world_of_def connection_start_def emit_def Let_def
      case_prod_beta start_accept_heap split: option.splits)

lemma accept_handler_starts_pending:
  assumes "is_open (acceptor_v6 s) \<or> is_open (acceptor_v4 s)"
    and "next_connection s = Some p" and "heap w p = Some obj" and "p \<noteq> next_id w"
  shows "heap (world_of (accept_handler no_error s w)) p
           = Some (obj\<lparr>started := Some (no_delay s, keep_alive s, timeout s)\<rparr>)"
  using assms
  by (auto simp add: accept_handler_def world_of_def connection_start_def Let_def
      case_prod_beta start_accept_heap)

lemma registered_is_old:
  assumes "reachable s w" and "c \<in> connections s"
  shows "next_connection s \<noteq> Some c \<and> c \<noteq> next_id w"
  using reachable_fresh [OF assms(1)] assms(2) by (auto simp add: registry_fresh_def)

text \<open>
  Claim C7, the claim as stated fails. Connection 2 was created by an earlier
  \<open>start_accept\<close> and is pending; \<open>set_timeout\<close> is called after that; when the accept
  completes, connection 2 is started with the new timeout, not with the one that was
  configured when it was created.
\<close>

theorem set_timeout_reaches_pending_connection:
  "heap example_world 2 = Some \<lparr>conn_rx_buffer_size = Some 8192, started = None\<rparr>
   \<and> heap (world_of (accept_handler no_error example_listening_server example_world)) 2
       = Some \<lparr>conn_rx_buffer_size = Some 8192, started = Some (False, False, 0)\<rparr>
   \<and> heap (world_of
        (accept_handler no_error (set_timeout 5000 example_listening_server) example_world)) 2
       = Some \<lparr>conn_rx_buffer_size = Some 8192, started = Some (False, False, 5000)\<rparr>"
  by (simp add: accept_handler_def connection_start_def is_open_def world_of_def
      start_accept_def connection_create_def emit_def set_timeout_def
      example_listening_server_def example_world_def)

text \<open>
  Claim C7, amended. Each of the four setters changes its own field of the server and
  nothing else. A connection in the registry of a reachable state is left as it is by a
  setter followed by an accept completion. The receive buffer size is given to the
  connection that the next \<open>start_accept\<close> creates and changes the buffer size of no
  connection that exists. No-delay, keep-alive and timeout are given to the connection
  that is accepted next, which is the pending connection that an earlier \<open>start_accept\<close>
  created.
\<close>

theorem setters_take_effect:
  "set_rx_buffer_size sz s = s\<lparr>rx_buffer_size := Some sz\<rparr>
   \<and> set_no_delay nd s = s\<lparr>no_delay := nd\<rparr>
   \<and> set_keep_alive ka s = s\<lparr>keep_alive := ka\<rparr>
   \<and> set_timeout t s = s\<lparr>timeout := t\<rparr>
   \<and> (reachable s w \<and> c \<in> connections s \<longrightarrow>
        (\<forall>s' \<in> {set_rx_buffer_size sz s, set_no_delay nd s, set_keep_alive ka s,
                  set_timeout t s}.
           heap (world_of (accept_handler error s' w)) c = heap w c))
   \<and> heap (snd (start_accept (set_rx_buffer_size sz s) w)) (next_id w)
       = Some \<lparr>conn_rx_buffer_size = Some sz, started = None\<rparr>
   \<and> (c \<noteq> next_id w \<longrightarrow>
        map_option conn_rx_buffer_size
          (heap (world_of (accept_handler error (set_rx_buffer_size sz s) w)) c)
        = map_option conn_rx_buffer_size (heap w c))
   \<and> ((is_open (acceptor_v6 s) \<or> is_open (acceptor_v4 s)) \<and> next_connection s = Some p
        \<and> heap w p = Some obj \<and> p \<noteq> next_id w \<longrightarrow>
        heap (world_of (accept_handler no_error (set_no_delay nd s) w)) p
          = Some (obj\<lparr>started := Some (nd, keep_alive s, timeout s)\<rparr>)
        \<and> heap (world_of (accept_handler no_error (set_keep_alive ka s) w)) p
          = Some (obj\<lparr>started := Some (no_delay s, ka, timeout s)\<rparr>)
        \<and> heap (world_of (accept_handler no_error (set_timeout t s) w)) p
          = Some (obj\<lparr>started := Some (no_delay s, keep_alive s, t)\<rparr>))"
proof -
  have own: "set_rx_buffer_size sz s = s\<lparr>rx_buffer_size := Some sz\<rparr>"
    "set_no_delay nd s = s\<lparr>no_delay := nd\<rparr>"
    "set_keep_alive ka s = s\<lparr>keep_alive := ka\<rparr>"
    "set_timeout t s = s\<lparr>timeout := t\<rparr>"
    by (simp_all add: set_rx_buffer_size_def set_no_delay_def set_keep_alive_def set_timeout_def)
  have kept: "heap (world_of (accept_handler error s' w)) c = heap w c"
    if "reachable s w" and "c \<in> connections s"
      and "s' \<in> {set_rx_buffer_size sz s, set_no_delay nd s, set_keep_alive ka s, set_timeout t s}"
    for s'
  proof -
    have "next_connection s \<noteq> Some c" and old: "c \<noteq> next_id w"
      using registered_is_old [OF that(1,2)] by simp_all
    moreover have "next_connection s' = next_connection s"
      using that(3) by (auto simp add: own)
    ultimately have "next_connection s' \<noteq> Some c" by simp
    then show ?thesis using old by (rule accept_handler_heap_frame)
  qed
  have created: "heap (snd (start_accept (set_rx_buffer_size sz s) w)) (next_id w)
       = Some \<lparr>conn_rx_buffer_size = Some sz, started = None\<rparr>"
    by (simp add: start_accept_heap own)
  have rx: "map_option conn_rx_buffer_size
          (heap (world_of (accept_handler error (set_rx_buffer_size sz s) w)) c)
        = map_option conn_rx_buffer_size (heap w c)" if "c \<noteq> next_id w"
    using that by (rule accept_handler_rx_frame)
  have pend: "heap (world_of (accept_handler no_error (set_no_delay nd s) w)) p
          = Some (obj\<lparr>started := Some (nd, keep_alive s, timeout s)\<rparr>)
        \<and> heap (world_of (accept_handler no_error (set_keep_alive ka s) w)) p
          = Some (obj\<lparr>started := Some (no_delay s, ka, timeout s)\<rparr>)
        \<and> heap (world_of (accept_handler no_error (set_timeout t s) w)) p
          = Some (obj\<lparr>started := Some (no_delay s, keep_alive s, t)\<rparr>)"
    if "is_open (acceptor_v6 s) \<or> is_open (acceptor_v4 s)" and "next_connection s = Some p"
      and "heap w p = Some obj" and "p \<noteq> next_id w"
    using accept_handler_starts_pending [of "s\<lparr>no_delay := nd\<rparr>" p w obj]
      accept_handler_starts_pending [of "s\<lparr>keep_alive := ka\<rparr>" p w obj]
      accept_handler_starts_pending [of "s\<lparr>timeout := t\<rparr>" p w obj] that
    by (simp add: own)
  show ?thesis
    using own kept created rx pend by blast
qed

theorem setters_take_effect_witness:
  "reachable example_listening_server example_world
   \<and> 0 \<in> connections example_listening_server
   \<and> is_open (acceptor_v6 example_listening_server)
   \<and> next_connection example_listening_server = Some 2
   \<and> heap (world_of
        (accept_handler no_error (set_timeout 5000 example_listening_server) example_world)) 0
       = Some \<lparr>conn_rx_buffer_size = Some 8192, started = Some (False, False, 0)\<rparr>
   \<and> heap (world_of
        (accept_handler no_error (set_timeout 5000 example_listening_server) example_world)) 2
       = Some \<lparr>conn_rx_buffer_size = Some 8192, started = Some (False, False, 5000)\<rparr>"
proof -
  have registered: "0 \<in> connections example_listening_server"
    and listening: "is_open (acceptor_v6 example_listening_server)"
    and pending: "next_connection example_listening_server = Some 2"
    and settings: "no_delay example_listening_server = False"
      "keep_alive example_listening_server = False"
    by (simp_all add: example_listening_server_def is_open_def)
  have objects: "heap example_world 0
        = Some \<lparr>conn_rx_buffer_size = Some 8192, started = Some (False, False, 0)\<rparr>"
    "heap example_world 2 = Some \<lparr>conn_rx_buffer_size = Some 8192, started = None\<rparr>"
    "2 \<noteq> next_id example_world"
    by (simp_all add: example_world_def)
  note effect = setters_take_effect [where s = example_listening_server
      and w = example_world and c = 0 and t = 5000 and error = no_error and p = 2
      and obj = "\<lparr>conn_rx_buffer_size = Some 8192, started = None\<rparr>"
      and sz = 0 and nd = False and ka = False]
  have kept: "heap (world_of
        (accept_handler no_error (set_timeout 5000 example_listening_server) example_world)) 0
       = heap example_world 0"
    using effect example_reachable registered by blast
  have reached: "heap (world_of
        (accept_handler no_error (set_timeout 5000 example_listening_server) example_world)) 2
       = Some (\<lparr>conn_rx_buffer_size = Some 8192, started = None\<rparr>
                \<lparr>started := Some (no_delay example_listening_server,
                                   keep_alive example_listening_server, 5000)\<rparr>)"
    using effect listening pending objects(2,3) by blast
  show ?thesis
    using example_reachable registered listening pending kept reached objects(1) settings
    by simp
qed

text \<open>
  Claim C10, evaluated. The constructor that takes the callbacks leaves \<open>rx_buffer_size\<close>
  without a value, where the constructor without callbacks stores the adaptor's default;
  the first pending connection of a server built with callbacks is created with that
  uninitialised size.
\<close>

theorem callbacks_constructor_rx_buffer_size:
  "rx_buffer_size (server_ctor_callbacks 0 1 2) = None
   \<and> rx_buffer_size (server_ctor example_adaptor 0) = Some 8192
   \<and> heap (world_of (accept_connections os_dual_stack 8080 False
        (server_ctor_callbacks 0 1 2) empty_world)) 0
       = Some \<lparr>conn_rx_buffer_size = None, started = None\<rparr>
   \<and> heap (world_of (accept_connections os_dual_stack 8080 False
        (server_ctor example_adaptor 0) empty_world)) 0
       = Some \<lparr>conn_rx_buffer_size = Some 8192, started = None\<rparr>"
  by (simp add: accept_connections_def open_v6_def open_v4_def reuse_bind_listen_def
      acceptor_open_def set_option_v6_only_def get_option_v6_only_def
      set_option_reuse_address_def acceptor_bind_def acceptor_listen_def is_open_def
      start_accept_def connection_create_def emit_def os_dual_stack_def world_of_def
      server_ctor_callbacks_def server_ctor_def example_adaptor_def empty_world_def)

end
